theory Spec2Isabelle
  imports Complex_Main
begin

section \<open>Data model\<close>

text \<open>
  The booking controller and the reminder service work on rows of a relational store
  through an ORM. Row identifiers are modelled as natural numbers, a JavaScript
  \<open>Date\<close> as its number of milliseconds since the epoch, a decimal amount as a
  rational number. Fields that no modelled operation reads (password hash, address,
  birthday, message bodies) are left out of the rows.
\<close>

datatype booking_status = Booked | CheckedIn | InProgress | Completed | Cancelled

datatype payment_status = Pending | Succeeded | Failed

datatype channel = EMAIL | SMS

record user =
  uid :: nat
  fullName :: string
  email :: string
  phone :: string
  notificationConsent :: bool

record booking =
  b_id :: nat
  customerId :: nat
  styleId :: "nat option"
  categoryId :: nat
  stylistId :: "nat option"
  promoId :: "nat option"
  bookingDate :: int
  bookingTime :: int
  status :: booking_status

record payment =
  p_bookingId :: nat
  amount :: rat
  stripePaymentId :: string
  p_status :: payment_status

record notification =
  n_channel :: channel
  destination :: string
  meta_bookingId :: "nat option"
  meta_userId :: "nat option"
  meta_type :: "string option"

record db =
  users :: "user list"
  categories :: "nat list"
  styles :: "nat list"
  bookings :: "booking list"
  payments :: "payment list"
  notifications :: "notification list"

text \<open>The store generates the identifier of a new row: one that no row carries yet.\<close>

definition fresh_id :: "nat list \<Rightarrow> nat" where
  "fresh_id ids = Suc (fold max ids 0)"

section \<open>JavaScript dates\<close>

text \<open>
  The local time zone of the server is a fixed offset \<open>tz\<close> in minutes
  (local time = UTC + \<open>tz\<close>). The setters replace one component of the date and keep
  the others, as \<open>Date.prototype.setHours\<close> and its siblings do; a component out of
  range carries over.
\<close>

definition setHours :: "int \<Rightarrow> int \<Rightarrow> int \<Rightarrow> int" where
  "setHours tz h t =
     (let l = t + tz * 60000
      in (l div 86400000) * 86400000 + h * 3600000 + l mod 3600000 - tz * 60000)"

definition setMinutes :: "int \<Rightarrow> int \<Rightarrow> int \<Rightarrow> int" where
  "setMinutes tz m t =
     (let l = t + tz * 60000
      in (l div 3600000) * 3600000 + m * 60000 + l mod 60000 - tz * 60000)"

definition setSeconds :: "int \<Rightarrow> int \<Rightarrow> int \<Rightarrow> int" where
  "setSeconds tz sec t =
     (let l = t + tz * 60000
      in (l div 60000) * 60000 + sec * 1000 + l mod 1000 - tz * 60000)"

definition getHours :: "int \<Rightarrow> int \<Rightarrow> int" where
  "getHours tz t = ((t + tz * 60000) div 3600000) mod 24"

definition getMinutes :: "int \<Rightarrow> int \<Rightarrow> int" where
  "getMinutes tz t = ((t + tz * 60000) div 60000) mod 60"

definition setUTCHours :: "int \<Rightarrow> int \<Rightarrow> int" where
  "setUTCHours = setHours 0"

definition setUTCMinutes :: "int \<Rightarrow> int \<Rightarrow> int" where
  "setUTCMinutes = setMinutes 0"

definition setUTCSeconds :: "int \<Rightarrow> int \<Rightarrow> int" where
  "setUTCSeconds = setSeconds 0"

definition getUTCHours :: "int \<Rightarrow> int" where
  "getUTCHours = getHours 0"

definition getUTCMinutes :: "int \<Rightarrow> int" where
  "getUTCMinutes = getMinutes 0"

text \<open>\<open>d.toISOString().split('T')[0]\<close>: the UTC calendar day of an instant, as a day number.\<close>

definition isoDay :: "int \<Rightarrow> int" where
  "isoDay t = t div 86400000"

section \<open>Notification outbox\<close>

text \<open>
  Modelled from the spec: \<open>notificationQueue.add\<close> (the notification queue service is
  not among the sources). The outbox accepts a channel, a destination, a body, an
  optional subject and the correlation metadata, and appends one record to the
  notification ledger; it does not deduplicate.
\<close>

definition enqueue ::
  "channel \<Rightarrow> string \<Rightarrow> nat option \<Rightarrow> nat option \<Rightarrow> string option \<Rightarrow> db \<Rightarrow> db" where
  "enqueue ch dest mb mu mt s =
     s\<lparr>notifications := notifications s @
        [\<lparr>n_channel = ch, destination = dest, meta_bookingId = mb, meta_userId = mu,
          meta_type = mt\<rparr>]\<rparr>"

section \<open>Reservation: \<open>createBooking\<close>\<close>

record guest =
  g_fullName :: string
  g_email :: string
  g_phone :: string
  g_smsConsent :: "bool option"

text \<open>
  The request: the authenticated user (if any), the body fields, the instant
  \<open>new Date(date)\<close> and the two numbers read from the \<open>HH:mm\<close> time string. A string
  that JavaScript treats as false (absent or empty) is \<open>None\<close> or \<open>[]\<close>.
\<close>

record create_req =
  auth_userId :: "nat option"
  r_styleId :: "nat option"
  r_categoryId :: nat
  r_stylistId :: "nat option"
  r_promoId :: "nat option"
  r_date :: int
  r_hours :: int
  r_minutes :: int
  guestDetails :: "guest option"
  paymentIntentId :: "string option"

record payment_intent =
  pi_status :: string
  pi_amount :: int

text \<open>
  What the store does when it fails unexpectedly inside the reservation transaction: at
  the conflict query, at one of the two inserts, or at the commit.
\<close>

datatype tx_fault =
  NoFault
  | QueryFails string
  | BookingInsertFails string
  | PaymentInsertFails string
  | CommitFails string

text \<open>
  The environment of one request: the payment gateway (\<open>retrieve\<close> returns the intent or
  raises, \<open>refund\<close> succeeds or raises), the time zone offset and the store's fault.
\<close>

record env =
  retrieve :: "string \<Rightarrow> string + payment_intent"
  refund :: "string \<Rightarrow> bool"
  tz :: int
  fault :: tx_fault

datatype tx_error = StylistUnavailable | DuplicateBooking | StoreFailure string

fun message :: "tx_error \<Rightarrow> string" where
  "message StylistUnavailable = ''Selected stylist is no longer available at this time.''"
| "message DuplicateBooking = ''You already have a booking at this time.''"
| "message (StoreFailure m) = m"

datatype body = Message string | BookingJson booking

datatype response = Response nat body

text \<open>
  The calls that leave the process, in order: the gateway calls and the boundaries of the
  store transaction. \<open>LogCritical\<close> is the log line of a refund that failed.
\<close>

datatype event =
  GatewayRetrieve string
  | TxBegin
  | TxCommit
  | TxRollback
  | GatewayRefund string
  | LogCritical

fun query_fault :: "tx_fault \<Rightarrow> string option" where
  "query_fault (QueryFails m) = Some m"
| "query_fault _ = None"

fun booking_insert_fault :: "tx_fault \<Rightarrow> string option" where
  "booking_insert_fault (BookingInsertFails m) = Some m"
| "booking_insert_fault _ = None"

fun payment_insert_fault :: "tx_fault \<Rightarrow> string option" where
  "payment_insert_fault (PaymentInsertFails m) = Some m"
| "payment_insert_fault _ = None"

fun commit_fault :: "tx_fault \<Rightarrow> string option" where
  "commit_fault (CommitFails m) = Some m"
| "commit_fault _ = None"

text \<open>
  The race-condition check at the head of the transaction: \<open>findFirst\<close> over the
  bookings with the stylist's (or, without a stylist, the customer's) date and time and
  a status other than cancelled.
\<close>

definition conflict_check :: "nat option \<Rightarrow> nat \<Rightarrow> int \<Rightarrow> int \<Rightarrow> db \<Rightarrow> tx_error option" where
  "conflict_check stylist userId bDate bTime s =
     (case stylist of
        Some sid \<Rightarrow>
          (case find (\<lambda>b. stylistId b = Some sid \<and> bookingDate b = bDate \<and>
                          bookingTime b = bTime \<and> status b \<noteq> Cancelled) (bookings s) of
             Some existingBooking \<Rightarrow> Some StylistUnavailable
           | None \<Rightarrow> None)
      | None \<Rightarrow>
          (case find (\<lambda>b. customerId b = userId \<and> bookingDate b = bDate \<and>
                          bookingTime b = bTime \<and> status b \<noteq> Cancelled) (bookings s) of
             Some duplicateBooking \<Rightarrow> Some DuplicateBooking
           | None \<Rightarrow> None))"

text \<open>The callback passed to \<open>prisma.$transaction\<close>, on the transaction's view of the store.\<close>

definition tx_body ::
  "tx_fault \<Rightarrow> create_req \<Rightarrow> nat \<Rightarrow> int \<Rightarrow> int \<Rightarrow> string \<Rightarrow> db \<Rightarrow> tx_error + (booking \<times> db)" where
  "tx_body f req userId bDate bTime pid s =
     (case query_fault f of
        Some m \<Rightarrow> Inl (StoreFailure m)
      | None \<Rightarrow>
     (case conflict_check (r_stylistId req) userId bDate bTime s of
        Some e \<Rightarrow> Inl e
      | None \<Rightarrow>
     (case booking_insert_fault f of
        Some m \<Rightarrow> Inl (StoreFailure m)
      | None \<Rightarrow>
     (let bk = \<lparr>b_id = fresh_id (map b_id (bookings s)), customerId = userId,
                 styleId = r_styleId req, categoryId = r_categoryId req,
                 stylistId = r_stylistId req, promoId = r_promoId req,
                 bookingDate = bDate, bookingTime = bTime, status = Booked\<rparr>;
          s1 = s\<lparr>bookings := bookings s @ [bk]\<rparr>
      in (case payment_insert_fault f of
            Some m \<Rightarrow> Inl (StoreFailure m)
          | None \<Rightarrow>
              Inr (bk, s1\<lparr>payments := payments s1 @
                     [\<lparr>p_bookingId = b_id bk, amount = 50, stripePaymentId = pid,
                       p_status = Succeeded\<rparr>]\<rparr>))))))"

text \<open>
  \<open>prisma.$transaction\<close>: the callback's writes reach the store only when the callback
  returns and the commit succeeds; when it raises, the store is as it was.
\<close>

definition transaction ::
  "tx_fault \<Rightarrow> (db \<Rightarrow> tx_error + ('a \<times> db)) \<Rightarrow> db \<Rightarrow> (tx_error + 'a) \<times> db" where
  "transaction f cb s =
     (case cb s of
        Inl e \<Rightarrow> (Inl e, s)
      | Inr (r, s') \<Rightarrow>
          (case commit_fault f of
             Some m \<Rightarrow> (Inl (StoreFailure m), s)
           | None \<Rightarrow> (Inr r, s')))"

text \<open>
  Guest handling and profile update, before the transaction: the customer of the booking,
  or the early response.
\<close>

definition resolve_customer :: "db \<Rightarrow> create_req \<Rightarrow> response + (nat \<times> db)" where
  "resolve_customer s req =
     (case auth_userId req of
        None \<Rightarrow>
          (case guestDetails req of
             None \<Rightarrow>
               Inl (Response 400 (Message ''Guest details (Name, Email, Phone) are required''))
           | Some g \<Rightarrow>
               if g_fullName g = [] \<or> g_email g = [] \<or> g_phone g = []
               then Inl (Response 400 (Message ''Guest details (Name, Email, Phone) are required''))
               else
                 (case find (\<lambda>u. email u = g_email g) (users s) of
                    None \<Rightarrow>
                      (let u = \<lparr>uid = fresh_id (map uid (users s)), fullName = g_fullName g,
                                email = g_email g, phone = g_phone g,
                                notificationConsent =
                                  (case g_smsConsent g of None \<Rightarrow> True | Some c \<Rightarrow> c)\<rparr>;
                           s1 = s\<lparr>users := users s @ [u]\<rparr>
                       in Inr (uid u,
                            if notificationConsent u
                            then enqueue EMAIL (g_email g) None (Some (uid u))
                                   (Some ''GUEST_CREDENTIALS'') s1
                            else s1))
                  | Some u \<Rightarrow> Inr (uid u, s)))
      | Some userId \<Rightarrow>
          (case guestDetails req of
             None \<Rightarrow> Inr (userId, s)
           | Some g \<Rightarrow>
               (case g_smsConsent g of
                  None \<Rightarrow> Inr (userId, s)
                | Some c \<Rightarrow>
                    if find (\<lambda>u. uid u = userId) (users s) = None
                    then Inl (Response 500 (Message ''Server error''))
                    else Inr (userId,
                           s\<lparr>users := map (\<lambda>u. if uid u = userId
                                                then u\<lparr>notificationConsent := c\<rparr> else u)
                                          (users s)\<rparr>))))"

text \<open>The confirmation messages queued after the commit, for a customer who consents.\<close>

definition queue_confirmation :: "nat \<Rightarrow> booking \<Rightarrow> db \<Rightarrow> db" where
  "queue_confirmation userId result s =
     (case find (\<lambda>u. uid u = userId) (users s) of
        None \<Rightarrow> s
      | Some u \<Rightarrow>
          if notificationConsent u
          then
            (let s1 = (if email u \<noteq> []
                       then enqueue EMAIL (email u) (Some (b_id result)) (Some (uid u)) None s
                       else s)
             in if phone u \<noteq> []
                then enqueue SMS (phone u) (Some (b_id result)) (Some (uid u)) None s1
                else s1)
          else s)"

text \<open>
  The steps of \<open>createBooking\<close> before the transaction: the payment is verified with the
  gateway, the selection is validated, the customer is resolved. The result is the early
  response, or the payment reference, the customer and the store as they enter the
  transaction. The comparison of the captured amount with 5000 cents has an empty body.
\<close>

definition validate ::
  "env \<Rightarrow> db \<Rightarrow> create_req \<Rightarrow> (response \<times> db \<times> event list) + (string \<times> nat \<times> db)" where
  "validate e s req =
     (case paymentIntentId req of
        None \<Rightarrow> Inl (Response 400 (Message ''Payment is required to confirm booking''), s, [])
      | Some pid \<Rightarrow>
     if pid = []
     then Inl (Response 400 (Message ''Payment is required to confirm booking''), s, [])
     else
     (case retrieve e pid of
        Inl err \<Rightarrow> Inl (Response 500 (Message ''Server error''), s, [GatewayRetrieve pid])
      | Inr paymentIntent \<Rightarrow>
     if pi_status paymentIntent \<noteq> ''succeeded''
     then Inl (Response 400
                 (Message (''Payment validation failed. Status: '' @ pi_status paymentIntent)),
               s, [GatewayRetrieve pid])
     else if r_categoryId req \<notin> set (categories s)
     then Inl (Response 400 (Message ''Invalid Variation (Category) ID''), s,
               [GatewayRetrieve pid])
     else if (case r_styleId req of Some st \<Rightarrow> st \<notin> set (styles s) | None \<Rightarrow> False)
     then Inl (Response 400 (Message ''Invalid Style ID''), s, [GatewayRetrieve pid])
     else
     (let amount_checked = (if pi_amount paymentIntent \<noteq> 5000 then () else ())
      in (case resolve_customer s req of
            Inl resp \<Rightarrow> Inl (resp, s, [GatewayRetrieve pid])
          | Inr (userId, s1) \<Rightarrow> Inr (pid, userId, s1)))))"

text \<open>
  \<open>bookingTime\<close>: the epoch with the hours and the minutes of the request set in local
  time.
\<close>

definition parse_time :: "int \<Rightarrow> create_req \<Rightarrow> int" where
  "parse_time zone req = setMinutes zone (r_minutes req) (setHours zone (r_hours req) 0)"

definition createBooking :: "env \<Rightarrow> db \<Rightarrow> create_req \<Rightarrow> response \<times> db \<times> event list" where
  "createBooking e s req =
     (case validate e s req of
        Inl early \<Rightarrow> early
      | Inr (pid, userId, s1) \<Rightarrow>
          (case transaction (fault e)
                  (tx_body (fault e) req userId (r_date req) (parse_time (tz e) req) pid) s1 of
             (Inl transactionError, s2) \<Rightarrow>
               (Response 409
                  (Message (if message transactionError = []
                            then ''Booking failed. Your payment has been refunded.''
                            else message transactionError)),
                s2,
                [GatewayRetrieve pid, TxBegin, TxRollback, GatewayRefund pid] @
                  (if refund e pid then [] else [LogCritical]))
           | (Inr result, s2) \<Rightarrow>
               (Response 201 (BookingJson result), queue_confirmation userId result s2,
                [GatewayRetrieve pid, TxBegin, TxCommit])))"

section \<open>Status and assignment: \<open>updateBooking\<close>\<close>

text \<open>The \<open>stylistId\<close> of the request body: a stylist's identifier or the word \<open>unassigned\<close>.\<close>

datatype stylist_arg = Unassigned | Stylist nat

record update_req =
  u_status :: "booking_status option"
  u_stylistId :: "stylist_arg option"
  u_paymentStatus :: "payment_status option"

text \<open>
  The fields collected in \<open>data\<close>: \<open>None\<close> leaves the column as it is. The conflict
  query of a stylist change ends the request with 409.
\<close>

definition stylist_data :: "db \<Rightarrow> nat \<Rightarrow> booking \<Rightarrow> stylist_arg option \<Rightarrow> unit + nat option option" where
  "stylist_data s ident bk arg =
     (case arg of
        None \<Rightarrow> Inr None
      | Some Unassigned \<Rightarrow> Inr (Some None)
      | Some (Stylist sid) \<Rightarrow>
          (case find (\<lambda>b. stylistId b = Some sid \<and> bookingDate b = bookingDate bk \<and>
                          bookingTime b = bookingTime bk \<and> status b \<noteq> Cancelled \<and>
                          b_id b \<noteq> ident) (bookings s) of
             Some conflict \<Rightarrow> Inl ()
           | None \<Rightarrow> Inr (Some (Some sid))))"

definition apply_data :: "booking_status option \<Rightarrow> nat option option \<Rightarrow> booking \<Rightarrow> booking" where
  "apply_data st sty b =
     b\<lparr>status := (case st of None \<Rightarrow> status b | Some v \<Rightarrow> v),
       stylistId := (case sty of None \<Rightarrow> stylistId b | Some v \<Rightarrow> v)\<rparr>"

text \<open>
  The response carries the updated booking (the price shown with it is left out). The
  thank-you messages of a completion are queued only for a customer whose
  \<open>notificationConsent\<close> is set, and the customer loaded with the updated booking
  carries the name, email and phone only: nothing is queued.
\<close>

definition updateBooking :: "db \<Rightarrow> nat \<Rightarrow> update_req \<Rightarrow> response \<times> db" where
  "updateBooking s ident req =
     (case find (\<lambda>b. b_id b = ident) (bookings s) of
        None \<Rightarrow> (Response 404 (Message ''Booking not found''), s)
      | Some bk \<Rightarrow>
          (case stylist_data s ident bk (u_stylistId req) of
             Inl _ \<Rightarrow> (Response 409 (Message ''Stylist is already booked at this time''), s)
           | Inr sty \<Rightarrow>
               (let s1 = (case u_paymentStatus req of
                            None \<Rightarrow> s
                          | Some ps \<Rightarrow>
                              s\<lparr>payments := map (\<lambda>p. if p_bookingId p = ident
                                                       then p\<lparr>p_status := ps\<rparr> else p)
                                                 (payments s)\<rparr>);
                    s2 = s1\<lparr>bookings := map (\<lambda>b. if b_id b = ident
                                                  then apply_data (u_status req) sty b else b)
                                            (bookings s1)\<rparr>
                in (Response 200 (BookingJson (apply_data (u_status req) sty bk)), s2))))"

section \<open>Check-in: \<open>checkInBooking\<close>\<close>

record caller =
  c_userId :: "nat option"
  c_role :: string

definition appointmentTime :: "booking \<Rightarrow> int" where
  "appointmentTime bk =
     setUTCSeconds 0
       (setUTCMinutes (getUTCMinutes (bookingTime bk))
          (setUTCHours (getUTCHours (bookingTime bk)) (bookingDate bk)))"

definition diffMinutes :: "int \<Rightarrow> booking \<Rightarrow> rat" where
  "diffMinutes now bk = of_int (now - appointmentTime bk) / (1000 * 60)"

definition checkInBooking :: "int \<Rightarrow> caller \<Rightarrow> db \<Rightarrow> nat \<Rightarrow> response \<times> db" where
  "checkInBooking now c s ident =
     (case find (\<lambda>b. b_id b = ident) (bookings s) of
        None \<Rightarrow> (Response 404 (Message ''Booking not found''), s)
      | Some bk \<Rightarrow>
          if c_role c \<noteq> ''admin'' \<and> c_role c \<noteq> ''stylist'' \<and> Some (customerId bk) \<noteq> c_userId c
          then (Response 403 (Message ''Not authorized to check in this booking''), s)
          else if \<bar>diffMinutes now bk\<bar> > 30
          then (Response 400
                  (Message ''Check-in only allowed 30 minutes before or after appointment''), s)
          else (Response 200 (BookingJson (bk\<lparr>status := CheckedIn\<rparr>)),
                s\<lparr>bookings := map (\<lambda>b. if b_id b = ident then b\<lparr>status := CheckedIn\<rparr> else b)
                                    (bookings s)\<rparr>))"

section \<open>Secondary payments: \<open>addBookingPayment\<close> and the balance of \<open>RecordPaymentDialog\<close>\<close>

text \<open>
  \<open>addBookingPayment\<close> records the amount of the request as it comes. The reference of
  a cash payment is \<open>cash_\<close> followed by the current time, passed here as its decimal
  string. The response (the booking with its payments) is left out.
\<close>

definition addBookingPayment :: "string \<Rightarrow> db \<Rightarrow> nat \<Rightarrow> rat \<Rightarrow> string option \<Rightarrow> db" where
  "addBookingPayment nowStr s ident amt ref =
     s\<lparr>payments := payments s @
        [\<lparr>p_bookingId = ident, amount = amt,
          stripePaymentId = (case ref of None \<Rightarrow> ''cash_'' @ nowStr
                             | Some r \<Rightarrow> if r = [] then ''cash_'' @ nowStr else r),
          p_status = Succeeded\<rparr>]\<rparr>"





section \<open>Reminders: \<open>reminderService\<close>\<close>

text \<open>
  \<open>fails ident ch\<close> tells whether building or queueing the reminder of booking
  \<open>ident\<close> on channel \<open>ch\<close> raises; the exception ends \<open>sendReminderForBooking\<close>, which
  logs it.
\<close>

definition alreadySent :: "db \<Rightarrow> nat \<Rightarrow> notification option" where
  "alreadySent s ident =
     find (\<lambda>n. meta_bookingId n = Some ident \<and> meta_type n = Some ''REMINDER'') (notifications s)"

definition sendReminderForBooking :: "(nat \<Rightarrow> channel \<Rightarrow> bool) \<Rightarrow> db \<Rightarrow> booking \<Rightarrow> db" where
  "sendReminderForBooking fails s bk =
     (case find (\<lambda>u. uid u = customerId bk) (users s) of
        None \<Rightarrow> s
      | Some customer \<Rightarrow>
          if \<not> notificationConsent customer then s
          else
            (case alreadySent s (b_id bk) of
               Some n \<Rightarrow> s
             | None \<Rightarrow>
                 if email customer \<noteq> [] \<and> fails (b_id bk) EMAIL then s
                 else
                   (let s1 = (if email customer \<noteq> []
                              then enqueue EMAIL (email customer) (Some (b_id bk)) None
                                     (Some ''REMINDER'') s
                              else s)
                    in if phone customer \<noteq> [] \<and> fails (b_id bk) SMS then s1
                       else if phone customer \<noteq> []
                       then enqueue SMS (phone customer) (Some (b_id bk)) None
                              (Some ''REMINDER'') s1
                       else s1)))"

text \<open>\<open>tomorrow.setDate(tomorrow.getDate() + 1)\<close>, at a fixed offset from UTC.\<close>

definition addDay :: "int \<Rightarrow> int" where
  "addDay t = t + 86400000"

definition dueTomorrow :: "int \<Rightarrow> db \<Rightarrow> booking list" where
  "dueTomorrow now s =
     (let tomorrowStr = isoDay (addDay now);
          startOfTomorrow = tomorrowStr * 86400000;
          endOfTomorrow = tomorrowStr * 86400000 + 86399999
      in filter (\<lambda>b. startOfTomorrow \<le> bookingDate b \<and> bookingDate b \<le> endOfTomorrow \<and>
                      status b = Booked) (bookings s))"

definition checkAndSendReminders :: "(nat \<Rightarrow> channel \<Rightarrow> bool) \<Rightarrow> int \<Rightarrow> int \<Rightarrow> db \<Rightarrow> db" where
  "checkAndSendReminders fails zone now s =
     (let currentHour = getHours zone now
      in fold (\<lambda>bk s'. if getHours zone (bookingTime bk) = currentHour
                        then sendReminderForBooking fails s' bk else s')
           (dueTomorrow now s) s)"

section \<open>Example data\<close>

definition ex_user :: user where
  "ex_user = \<lparr>uid = 1, fullName = ''Ada'', email = ''ada@example.org'', phone = ''555'',
               notificationConsent = True\<rparr>"

definition ex_db :: db where
  "ex_db = \<lparr>users = [ex_user], categories = [1], styles = [1], bookings = [], payments = [],
             notifications = []\<rparr>"

definition ex_env :: env where
  "ex_env = \<lparr>retrieve = (\<lambda>r. Inr \<lparr>pi_status = ''succeeded'', pi_amount = 5000\<rparr>),
              refund = (\<lambda>r. True), tz = 0, fault = NoFault\<rparr>"

definition ex_req :: create_req where
  "ex_req = \<lparr>auth_userId = Some 1, r_styleId = Some 1, r_categoryId = 1, r_stylistId = Some 7,
              r_promoId = None, r_date = 1728000000000, r_hours = 10, r_minutes = 30,
              guestDetails = None, paymentIntentId = Some ''pi_1''\<rparr>"

definition ex_booking :: booking where
  "ex_booking = \<lparr>b_id = 1, customerId = 1, styleId = Some 1, categoryId = 1,
                  stylistId = Some 7, promoId = None, bookingDate = 1728000000000,
                  bookingTime = 37800000, status = Booked\<rparr>"

definition ex_deposit :: payment where
  "ex_deposit = \<lparr>p_bookingId = 1, amount = 50, stripePaymentId = ''pi_1'',
                  p_status = Succeeded\<rparr>"

section \<open>Predicates of the specification\<close>

text \<open>Every booking row has a payment row that refers to it.\<close>

definition deposit_recorded :: "db \<Rightarrow> bool" where
  "deposit_recorded s = (\<forall>b\<in>set (bookings s). \<exists>p\<in>set (payments s). p_bookingId p = b_id b)"

text \<open>
  The stores that the operations produce, from a store without bookings. The reservation
  is the only operation that inserts a booking.
\<close>

inductive reachable :: "db \<Rightarrow> bool" where
  initial: "bookings s = [] \<Longrightarrow> reachable s"
| reserve: "reachable s \<Longrightarrow> reachable (fst (snd (createBooking e s req)))"
| update: "reachable s \<Longrightarrow> reachable (snd (updateBooking s i ureq))"
| check_in: "reachable s \<Longrightarrow> reachable (snd (checkInBooking now c s i))"
| pay: "reachable s \<Longrightarrow> reachable (addBookingPayment n s i amt r)"
| remind: "reachable s \<Longrightarrow> reachable (checkAndSendReminders fails zone now s)"




text \<open>The payment reference of the request resolves to a payment in the succeeded state.\<close>

definition captured :: "env \<Rightarrow> create_req \<Rightarrow> bool" where
  "captured e req =
     (case paymentIntentId req of
        None \<Rightarrow> False
      | Some pid \<Rightarrow> pid \<noteq> [] \<and>
          (case retrieve e pid of Inl err \<Rightarrow> False | Inr p \<Rightarrow> pi_status p = ''succeeded''))"

text \<open>The responses that report a payment that is missing or not captured.\<close>

definition payment_not_captured :: "response \<Rightarrow> bool" where
  "payment_not_captured r =
     (case r of
        Response code (Message m) \<Rightarrow>
          code = 400 \<and> (m = ''Payment is required to confirm booking'' \<or>
                        take 35 m = ''Payment validation failed. Status: '')
      | Response code (BookingJson b) \<Rightarrow> False)"


text \<open>The gateway call that verifies the capture raises (a timeout, an unknown reference).\<close>

definition gateway_raises :: "env \<Rightarrow> create_req \<Rightarrow> bool" where
  "gateway_raises e req =
     (case paymentIntentId req of
        None \<Rightarrow> False
      | Some pid \<Rightarrow> pid \<noteq> [] \<and> (case retrieve e pid of Inl err \<Rightarrow> True | Inr p \<Rightarrow> False))"


text \<open>
  The exclusivity check of a stylist change in the words of the specification: another
  booking, not cancelled, holds the new (stylist, date, time) key.
\<close>

definition stylist_taken :: "db \<Rightarrow> nat \<Rightarrow> nat \<Rightarrow> int \<Rightarrow> int \<Rightarrow> bool" where
  "stylist_taken s i sid d t =
     (\<exists>b\<in>set (bookings s). stylistId b = Some sid \<and> bookingDate b = d \<and> bookingTime b = t \<and>
        status b \<noteq> Cancelled \<and> b_id b \<noteq> i)"

text \<open>The callers that pass the authorization of the check-in.\<close>

definition authorized :: "caller \<Rightarrow> booking \<Rightarrow> bool" where
  "authorized c bk = (c_role c = ''admin'' \<or> c_role c = ''stylist'' \<or> c_userId c = Some (customerId bk))"






text \<open>The body of the scheduler's loop.\<close>

definition reminder_step :: "(nat \<Rightarrow> channel \<Rightarrow> bool) \<Rightarrow> int \<Rightarrow> int \<Rightarrow> booking \<Rightarrow> db \<Rightarrow> db" where
  "reminder_step fails zone now bk s' =
     (if getHours zone (bookingTime bk) = getHours zone now
      then sendReminderForBooking fails s' bk else s')"


definition ex_db_two :: db where
  "ex_db_two = ex_db\<lparr>bookings := [ex_booking, ex_booking\<lparr>b_id := 2, customerId := 5, stylistId := Some 9\<rparr>]\<rparr>"

section \<open>The outstanding balance\<close>







section \<open>Facts about the reservation\<close>

lemma enqueue_rows [simp]:
  "bookings (enqueue ch d mb mu mt s) = bookings s"
  "payments (enqueue ch d mb mu mt s) = payments s"
  "users (enqueue ch d mb mu mt s) = users s"
  "notifications (enqueue ch d mb mu mt s) = notifications s @
        [\<lparr>n_channel = ch, destination = d, meta_bookingId = mb, meta_userId = mu,
          meta_type = mt\<rparr>]"
  by (simp_all add: enqueue_def)

lemma resolve_customer_rows:
  "resolve_customer s req = Inr (u, s1) \<Longrightarrow> bookings s1 = bookings s \<and> payments s1 = payments s"
  by (auto simp: resolve_customer_def Let_def split: option.splits if_splits)

lemma queue_confirmation_rows [simp]:
  "bookings (queue_confirmation u b s) = bookings s"
  "payments (queue_confirmation u b s) = payments s"
  by (simp_all add: queue_confirmation_def Let_def split: option.splits)

lemma validate_Inr:
  "validate e s req = Inr (pid, u, s1) \<Longrightarrow>
     paymentIntentId req = Some pid \<and> pid \<noteq> [] \<and>
     (\<exists>p. retrieve e pid = Inr p \<and> pi_status p = ''succeeded'') \<and>
     r_categoryId req \<in> set (categories s) \<and>
     resolve_customer s req = Inr (u, s1)"
  by (auto simp: validate_def Let_def split: option.splits if_splits sum.splits prod.splits)

lemma validate_Inl:
  "validate e s req = Inl (r, s', ev) \<Longrightarrow>
     s' = s \<and> (ev = [] \<or> (\<exists>pid. paymentIntentId req = Some pid \<and> ev = [GatewayRetrieve pid])) \<and> (\<forall>b. r \<noteq> Response 201 b)"
  by (auto simp: validate_def resolve_customer_def Let_def split: option.splits if_splits sum.splits prod.splits)

lemma transaction_commit:
  "transaction f (tx_body f req u d t pid) s = (Inr bk, s') \<Longrightarrow>
     conflict_check (r_stylistId req) u d t s = None \<and>
     bk = \<lparr>b_id = fresh_id (map b_id (bookings s)), customerId = u,
                 styleId = r_styleId req, categoryId = r_categoryId req,
                 stylistId = r_stylistId req, promoId = r_promoId req,
                 bookingDate = d, bookingTime = t, status = Booked\<rparr> \<and>
     s' = s\<lparr>bookings := bookings s @ [bk],
            payments := payments s @ [\<lparr>p_bookingId = b_id bk, amount = 50, stripePaymentId = pid,
                       p_status = Succeeded\<rparr>]\<rparr>"
  by (auto simp: transaction_def tx_body_def Let_def split: option.splits sum.splits prod.splits)

lemma transaction_abort:
  "transaction f cb s = (Inl err, s') \<Longrightarrow> s' = s"
  by (auto simp: transaction_def split: option.splits sum.splits prod.splits)











lemmas reservation_defs =
  createBooking_def validate_def resolve_customer_def transaction_def tx_body_def
  conflict_check_def queue_confirmation_def enqueue_def parse_time_def setHours_def
  setMinutes_def fresh_id_def Let_def

lemmas example_defs = ex_db_def ex_env_def ex_req_def ex_user_def ex_booking_def ex_deposit_def

lemma ex_reserve:
  "createBooking ex_env ex_db ex_req =
     (Response 201 (BookingJson ex_booking),
      ex_db\<lparr>bookings := [ex_booking], payments := [ex_deposit],
            notifications :=
              [\<lparr>n_channel = EMAIL, destination = ''ada@example.org'', meta_bookingId = Some 1,
                meta_userId = Some 1, meta_type = None\<rparr>,
               \<lparr>n_channel = SMS, destination = ''555'', meta_bookingId = Some 1,
                meta_userId = Some 1, meta_type = None\<rparr>]\<rparr>,
      [GatewayRetrieve ''pi_1'', TxBegin, TxCommit])"
  by (simp add: reservation_defs example_defs)

lemma validate_amount:
  "retrieve e pid = Inr p \<Longrightarrow> paymentIntentId req = Some pid \<Longrightarrow>
   validate (e\<lparr>retrieve := (retrieve e)(pid := Inr (p\<lparr>pi_amount := a\<rparr>))\<rparr>) s req = validate e s req"
  by (simp add: validate_def Let_def)

lemma createBooking_201:
  assumes "createBooking e s req = (Response 201 b, s', ev)"
  shows "\<exists>pid u s1 bk. validate e s req = Inr (pid, u, s1) \<and>
     transaction (fault e) (tx_body (fault e) req u (r_date req) (parse_time (tz e) req) pid) s1
        = (Inr bk, s1\<lparr>bookings := bookings s1 @ [bk],
            payments := payments s1 @ [\<lparr>p_bookingId = b_id bk, amount = 50, stripePaymentId = pid,
                       p_status = Succeeded\<rparr>]\<rparr>) \<and>
     b = BookingJson bk \<and>
     s' = queue_confirmation u bk (s1\<lparr>bookings := bookings s1 @ [bk],
            payments := payments s1 @ [\<lparr>p_bookingId = b_id bk, amount = 50, stripePaymentId = pid,
                       p_status = Succeeded\<rparr>]\<rparr>) \<and>
     ev = [GatewayRetrieve pid, TxBegin, TxCommit]"
proof (cases "validate e s req")
  case (Inl early)
  obtain r x y where "early = (r, x, y)" by (cases early)
  with Inl assms validate_Inl [of e s req r x y] show ?thesis
    by (auto simp: createBooking_def)
next
  case (Inr v)
  obtain pid u s1 where v: "v = (pid, u, s1)" by (cases v)
  let ?tx = "transaction (fault e) (tx_body (fault e) req u (r_date req) (parse_time (tz e) req) pid) s1"
  obtain res s2 where tx: "?tx = (res, s2)" by (cases ?tx)
  show ?thesis
  proof (cases res)
    case (Inl err)
    with Inr v tx assms show ?thesis by (simp add: createBooking_def)
  next
    case (Inr bk)
    note c = transaction_commit [OF tx [unfolded Inr]]
    from \<open>validate e s req = Inr v\<close> v tx Inr assms
    have "b = BookingJson bk" "s' = queue_confirmation u bk s2" "ev = [GatewayRetrieve pid, TxBegin, TxCommit]"
      by (simp_all add: createBooking_def)
    with \<open>validate e s req = Inr v\<close> v tx Inr c show ?thesis
      by auto
  qed
qed

section \<open>The deposit row\<close>

text \<open>
  C10: a successful reservation records the deposit payment with the amount 50 and the
  status succeeded under the payment reference of the request, and the amount of the
  captured payment intent plays no part: with any other amount reported by the gateway
  the operation returns the same response, store and calls.
\<close>

theorem deposit_is_fifty:
  assumes "createBooking e s req = (Response 201 b, s', ev)"
  shows "\<exists>pid bk. paymentIntentId req = Some pid \<and> b = BookingJson bk \<and>
           payments s' = payments s @
             [\<lparr>p_bookingId = b_id bk, amount = 50, stripePaymentId = pid, p_status = Succeeded\<rparr>] \<and>
           (\<forall>p a. retrieve e pid = Inr p \<longrightarrow>
              createBooking (e\<lparr>retrieve := (retrieve e)(pid := Inr (p\<lparr>pi_amount := a\<rparr>))\<rparr>) s req
                = createBooking e s req)"
proof -
  from createBooking_201 [OF assms] obtain pid u s1 bk where
    v: "validate e s req = Inr (pid, u, s1)" and b: "b = BookingJson bk" and
    s': "s' = queue_confirmation u bk (s1\<lparr>bookings := bookings s1 @ [bk],
            payments := payments s1 @ [\<lparr>p_bookingId = b_id bk, amount = 50, stripePaymentId = pid,
                       p_status = Succeeded\<rparr>]\<rparr>)"
    by blast
  from validate_Inr [OF v] have pid: "paymentIntentId req = Some pid"
    and rc: "resolve_customer s req = Inr (u, s1)" by auto
  have "payments s1 = payments s"
    using resolve_customer_rows [OF rc] by simp
  then have p: "payments s' = payments s @
             [\<lparr>p_bookingId = b_id bk, amount = 50, stripePaymentId = pid, p_status = Succeeded\<rparr>]"
    by (simp add: s')
  have "createBooking (e\<lparr>retrieve := (retrieve e)(pid := Inr (p\<lparr>pi_amount := a\<rparr>))\<rparr>) s req
                = createBooking e s req" if "retrieve e pid = Inr p" for p a
    by (simp add: createBooking_def validate_amount [OF that pid] split: sum.splits prod.splits)
  with pid b p show ?thesis by blast
qed

text \<open>The example reservation, and the same request with an intent of one cent.\<close>

theorem deposit_is_fifty_witness:
  "payments (fst (snd (createBooking ex_env ex_db ex_req))) = [ex_deposit] \<and>
   createBooking (ex_env\<lparr>retrieve := (retrieve ex_env)
                     (''pi_1'' := Inr \<lparr>pi_status = ''succeeded'', pi_amount = 1\<rparr>)\<rparr>) ex_db ex_req
     = createBooking ex_env ex_db ex_req"
proof -
  have r: "retrieve ex_env ''pi_1'' = Inr \<lparr>pi_status = ''succeeded'', pi_amount = 5000\<rparr>"
    by (simp add: ex_env_def)
  from deposit_is_fifty [OF ex_reserve] obtain pid bk where
    pid: "paymentIntentId ex_req = Some pid" and
    "BookingJson ex_booking = BookingJson bk" and
    pay: "payments (ex_db\<lparr>bookings := [ex_booking], payments := [ex_deposit],
            notifications :=
              [\<lparr>n_channel = EMAIL, destination = ''ada@example.org'', meta_bookingId = Some 1,
                meta_userId = Some 1, meta_type = None\<rparr>,
               \<lparr>n_channel = SMS, destination = ''555'', meta_bookingId = Some 1,
                meta_userId = Some 1, meta_type = None\<rparr>]\<rparr>) = payments ex_db @
             [\<lparr>p_bookingId = b_id bk, amount = 50, stripePaymentId = pid, p_status = Succeeded\<rparr>]" and
    indep: "\<forall>p a. retrieve ex_env pid = Inr p \<longrightarrow>
              createBooking (ex_env\<lparr>retrieve := (retrieve ex_env)(pid := Inr (p\<lparr>pi_amount := a\<rparr>))\<rparr>) ex_db ex_req
                = createBooking ex_env ex_db ex_req"
    by blast
  from pid have "pid = ''pi_1''" by (simp add: ex_req_def)
  with indep r have "createBooking (ex_env\<lparr>retrieve := (retrieve ex_env)
                     (''pi_1'' := Inr (\<lparr>pi_status = ''succeeded'', pi_amount = 5000\<rparr>\<lparr>pi_amount := 1\<rparr>))\<rparr>) ex_db ex_req
     = createBooking ex_env ex_db ex_req" by blast
  then show ?thesis by (simp add: ex_reserve)
qed


section \<open>Booking and deposit in one transaction\<close>

lemma deposit_recorded_ids:
  "deposit_recorded s = (set (map b_id (bookings s)) \<subseteq> set (map p_bookingId (payments s)))"
  unfolding deposit_recorded_def by (simp add: subset_iff image_iff) metis

lemma createBooking_rows:
  "(\<exists>bk p. fst (createBooking e s req) = Response 201 (BookingJson bk) \<and>
      bookings (fst (snd (createBooking e s req))) = bookings s @ [bk] \<and>
      payments (fst (snd (createBooking e s req))) = payments s @ [p] \<and>
      p_bookingId p = b_id bk \<and> amount p = 50 \<and> p_status p = Succeeded \<and>
      snd (snd (createBooking e s req)) = [GatewayRetrieve (stripePaymentId p), TxBegin, TxCommit]) \<or>
   ((\<forall>b. fst (createBooking e s req) \<noteq> Response 201 b) \<and>
      bookings (fst (snd (createBooking e s req))) = bookings s \<and>
      payments (fst (snd (createBooking e s req))) = payments s \<and>
      TxCommit \<notin> set (snd (snd (createBooking e s req))))"
proof (cases "validate e s req")
  case (Inl early)
  obtain r x y where early: "early = (r, x, y)" by (cases early)
  with Inl validate_Inl [of e s req r x y] show ?thesis
    by (auto simp: createBooking_def)
next
  case (Inr v)
  obtain pid u s1 where v: "v = (pid, u, s1)" by (cases v)
  from Inr v validate_Inr [of e s req pid u s1] have "resolve_customer s req = Inr (u, s1)"
    by simp
  from resolve_customer_rows [OF this] have rows: "bookings s1 = bookings s" "payments s1 = payments s"
    by simp_all
  let ?tx = "transaction (fault e) (tx_body (fault e) req u (r_date req) (parse_time (tz e) req) pid) s1"
  obtain res s2 where tx: "?tx = (res, s2)" by (cases ?tx)
  show ?thesis
  proof (cases res)
    case (Inl err)
    with tx transaction_abort [of "fault e" _ s1 err s2] have "s2 = s1" by simp
    with Inl \<open>validate e s req = Inr v\<close> v tx rows show ?thesis
      by (simp add: createBooking_def)
  next
    case (Inr bk)
    note c = transaction_commit [OF tx [unfolded Inr]]
    have "s2 = s1\<lparr>bookings := bookings s1 @ [bk],
            payments := payments s1 @ [\<lparr>p_bookingId = b_id bk, amount = 50, stripePaymentId = pid,
                       p_status = Succeeded\<rparr>]\<rparr>"
      using c by blast
    with Inr \<open>validate e s req = Inr v\<close> v tx rows show ?thesis
      by (simp add: createBooking_def)
  qed
qed

lemma updateBooking_ids:
  "map b_id (bookings (snd (updateBooking s i req))) = map b_id (bookings s)"
  "map p_bookingId (payments (snd (updateBooking s i req))) = map p_bookingId (payments s)"
  by (auto simp: updateBooking_def apply_data_def Let_def split: option.splits sum.splits)

lemma checkInBooking_ids:
  "map b_id (bookings (snd (checkInBooking now c s i))) = map b_id (bookings s)"
  "payments (snd (checkInBooking now c s i)) = payments s"
  by (auto simp: checkInBooking_def split: option.splits)

lemma sendReminderForBooking_rows [simp]:
  "bookings (sendReminderForBooking fails s bk) = bookings s"
  "payments (sendReminderForBooking fails s bk) = payments s"
  "users (sendReminderForBooking fails s bk) = users s"
  by (simp_all add: sendReminderForBooking_def Let_def split: option.splits)

lemma fold_reminders_rows:
  "bookings (fold (\<lambda>bk s'. if P bk then sendReminderForBooking fails s' bk else s') xs s) = bookings s \<and>
   payments (fold (\<lambda>bk s'. if P bk then sendReminderForBooking fails s' bk else s') xs s) = payments s \<and>
   users (fold (\<lambda>bk s'. if P bk then sendReminderForBooking fails s' bk else s') xs s) = users s"
  by (induction xs arbitrary: s) simp_all

lemma checkAndSendReminders_rows:
  "bookings (checkAndSendReminders fails zone now s) = bookings s"
  "payments (checkAndSendReminders fails zone now s) = payments s"
  "users (checkAndSendReminders fails zone now s) = users s"
  by (simp_all add: checkAndSendReminders_def Let_def fold_reminders_rows)

lemma reachable_deposit_recorded: "reachable s \<Longrightarrow> deposit_recorded s"
proof (induction rule: reachable.induct)
  case (initial s)
  then show ?case by (simp add: deposit_recorded_def)
next
  case (reserve s e req)
  then have old: "set (map b_id (bookings s)) \<subseteq> set (map p_bookingId (payments s))"
    by (simp add: deposit_recorded_ids)
  from createBooking_rows [of e s req] show ?case
  proof (elim disjE exE conjE)
    fix bk p
    assume "bookings (fst (snd (createBooking e s req))) = bookings s @ [bk]"
      "payments (fst (snd (createBooking e s req))) = payments s @ [p]"
      "p_bookingId p = b_id bk"
    with old show ?thesis
      unfolding deposit_recorded_ids by auto
  next
    assume "bookings (fst (snd (createBooking e s req))) = bookings s"
      "payments (fst (snd (createBooking e s req))) = payments s"
    with old show ?thesis
      unfolding deposit_recorded_ids by simp
  qed
next
  case (update s i ureq)
  have "set (map b_id (bookings (snd (updateBooking s i ureq)))) = set (map b_id (bookings s))"
    "set (map p_bookingId (payments (snd (updateBooking s i ureq)))) = set (map p_bookingId (payments s))"
    by (simp_all only: updateBooking_ids)
  with update show ?case
    by (simp only: deposit_recorded_ids)
next
  case (check_in s now c i)
  have "set (map b_id (bookings (snd (checkInBooking now c s i)))) = set (map b_id (bookings s))"
    by (simp only: checkInBooking_ids)
  with check_in show ?case
    by (simp only: deposit_recorded_ids checkInBooking_ids)
next
  case (pay s n i amt r)
  then show ?case
    by (auto simp: deposit_recorded_ids addBookingPayment_def)
next
  case (remind s fails zone now)
  then show ?case
    by (simp add: deposit_recorded_ids checkAndSendReminders_rows)
qed

text \<open>
  C1: a reservation that answers 201 has appended exactly one booking row and one
  payment row for that booking (amount 50, succeeded), both between the begin and the
  commit of one store transaction. Whatever the answer, a reservation appends either both
  rows, with a commit, or neither, without one. Hence in every store reachable from one
  without bookings, through reservations and the other operations, every booking row has
  a payment row.
\<close>

theorem booking_never_without_deposit:
  "(fst (createBooking e s req) = Response 201 b \<longrightarrow>
      (\<exists>bk p. b = BookingJson bk \<and>
         bookings (fst (snd (createBooking e s req))) = bookings s @ [bk] \<and>
         payments (fst (snd (createBooking e s req))) = payments s @ [p] \<and>
         p_bookingId p = b_id bk \<and> amount p = 50 \<and> p_status p = Succeeded \<and>
         snd (snd (createBooking e s req)) =
           [GatewayRetrieve (stripePaymentId p), TxBegin, TxCommit])) \<and>
   ((\<exists>bk p. bookings (fst (snd (createBooking e s req))) = bookings s @ [bk] \<and>
         payments (fst (snd (createBooking e s req))) = payments s @ [p] \<and>
         p_bookingId p = b_id bk \<and> TxCommit \<in> set (snd (snd (createBooking e s req)))) \<or>
    (bookings (fst (snd (createBooking e s req))) = bookings s \<and>
     payments (fst (snd (createBooking e s req))) = payments s \<and>
     TxCommit \<notin> set (snd (snd (createBooking e s req))))) \<and>
   (reachable s \<longrightarrow> deposit_recorded s)"
proof (intro conjI impI)
  show "\<exists>bk p. b = BookingJson bk \<and>
         bookings (fst (snd (createBooking e s req))) = bookings s @ [bk] \<and>
         payments (fst (snd (createBooking e s req))) = payments s @ [p] \<and>
         p_bookingId p = b_id bk \<and> amount p = 50 \<and> p_status p = Succeeded \<and>
         snd (snd (createBooking e s req)) =
           [GatewayRetrieve (stripePaymentId p), TxBegin, TxCommit]"
    if "fst (createBooking e s req) = Response 201 b"
    using that createBooking_rows [of e s req] by auto
  show "(\<exists>bk p. bookings (fst (snd (createBooking e s req))) = bookings s @ [bk] \<and>
         payments (fst (snd (createBooking e s req))) = payments s @ [p] \<and>
         p_bookingId p = b_id bk \<and> TxCommit \<in> set (snd (snd (createBooking e s req)))) \<or>
    (bookings (fst (snd (createBooking e s req))) = bookings s \<and>
     payments (fst (snd (createBooking e s req))) = payments s \<and>
     TxCommit \<notin> set (snd (snd (createBooking e s req))))"
    using createBooking_rows [of e s req] by auto
  show "deposit_recorded s" if "reachable s"
    using that by (rule reachable_deposit_recorded)
qed

text \<open>The store after the example reservation is reachable and holds the booking and its deposit.\<close>

theorem booking_never_without_deposit_witness:
  "reachable (fst (snd (createBooking ex_env ex_db ex_req))) \<and>
   bookings (fst (snd (createBooking ex_env ex_db ex_req))) = [ex_booking] \<and>
   payments (fst (snd (createBooking ex_env ex_db ex_req))) = [ex_deposit] \<and>
   deposit_recorded (fst (snd (createBooking ex_env ex_db ex_req)))"
proof -
  have "reachable ex_db"
    by (rule reachable.initial) (simp add: ex_db_def)
  then have r: "reachable (fst (snd (createBooking ex_env ex_db ex_req)))"
    by (rule reachable.reserve)
  with booking_never_without_deposit [of ex_env "fst (snd (createBooking ex_env ex_db ex_req))" ex_req]
  have "deposit_recorded (fst (snd (createBooking ex_env ex_db ex_req)))"
    by blast
  with r show ?thesis
    by (simp add: ex_reserve)
qed

section \<open>Compensation of an aborted reservation\<close>

text \<open>
  C2: when the payment was verified (the request reached the transaction) and the
  transaction aborts with an error of any kind (a slot conflict or a failure of the
  store), the store is the one from before the transaction, the gateway's refund is
  called with the request's payment reference after the rollback, and the response is
  409 with the message of the error that aborted the transaction (the fallback text when
  that error has no message). The response and the store are the same whether the refund
  succeeds or fails; a failed refund only adds the critical log line.
\<close>

theorem aborted_reservation_is_refunded:
  assumes "validate e s req = Inr (pid, u, s1)"
    and "fst (transaction (fault e)
               (tx_body (fault e) req u (r_date req) (parse_time (tz e) req) pid) s1) = Inl err"
  shows "paymentIntentId req = Some pid \<and>
     createBooking e s req =
       (Response 409 (Message (if message err = []
                                then ''Booking failed. Your payment has been refunded.''
                                else message err)),
        s1,
        [GatewayRetrieve pid, TxBegin, TxRollback, GatewayRefund pid] @
          (if refund e pid then [] else [LogCritical])) \<and>
     bookings s1 = bookings s \<and> payments s1 = payments s \<and>
     (\<forall>rf. fst (createBooking (e\<lparr>refund := rf\<rparr>) s req) = fst (createBooking e s req) \<and>
           fst (snd (createBooking (e\<lparr>refund := rf\<rparr>) s req)) = fst (snd (createBooking e s req)))"
proof -
  let ?tx = "transaction (fault e)
               (tx_body (fault e) req u (r_date req) (parse_time (tz e) req) pid) s1"
  obtain s2 where tx: "?tx = (Inl err, s2)"
    using assms(2) by (cases ?tx) simp
  then have s2: "s2 = s1"
    by (rule transaction_abort)
  from validate_Inr [OF assms(1)] have pid: "paymentIntentId req = Some pid"
    and rc: "resolve_customer s req = Inr (u, s1)" by simp_all
  have v: "validate (e\<lparr>refund := rf\<rparr>) s req = validate e s req" for rf
    by (simp add: validate_def cong: option.case_cong if_cong)
  have c: "createBooking e s req =
       (Response 409 (Message (if message err = []
                                then ''Booking failed. Your payment has been refunded.''
                                else message err)),
        s1,
        [GatewayRetrieve pid, TxBegin, TxRollback, GatewayRefund pid] @
          (if refund e pid then [] else [LogCritical]))"
    using tx s2 by (simp add: createBooking_def assms(1))
  have "fst (createBooking (e\<lparr>refund := rf\<rparr>) s req) = fst (createBooking e s req) \<and>
        fst (snd (createBooking (e\<lparr>refund := rf\<rparr>) s req)) = fst (snd (createBooking e s req))" for rf
    using tx s2 by (simp add: createBooking_def v assms(1))
  with pid c resolve_customer_rows [OF rc] show ?thesis
    by blast
qed

lemma ex_validate: "validate (ex_env\<lparr>fault := f, refund := rf\<rparr>) ex_db ex_req = Inr (''pi_1'', 1, ex_db)"
  by (simp add: reservation_defs example_defs)

text \<open>A failing insert of the payment row, with a gateway whose refund fails as well.\<close>

theorem aborted_reservation_is_refunded_witness:
  "createBooking (ex_env\<lparr>fault := PaymentInsertFails ''write failed'', refund := (\<lambda>r. False)\<rparr>) ex_db ex_req =
     (Response 409 (Message ''write failed''), ex_db,
      [GatewayRetrieve ''pi_1'', TxBegin, TxRollback, GatewayRefund ''pi_1'', LogCritical])"
proof -
  let ?e = "ex_env\<lparr>fault := PaymentInsertFails ''write failed'', refund := (\<lambda>r. False)\<rparr>"
  have "fst (transaction (fault ?e)
               (tx_body (fault ?e) ex_req 1 (r_date ex_req) (parse_time (tz ?e) ex_req) ''pi_1'') ex_db)
          = Inl (StoreFailure ''write failed'')"
    by (simp add: reservation_defs example_defs)
  from aborted_reservation_is_refunded [OF ex_validate this] show ?thesis
    by simp
qed

section \<open>The exclusivity check\<close>







section \<open>Payments that are not captured\<close>

text \<open>
  C4, as stated, fails: when the gateway call that verifies the capture raises, the
  payment reference does not resolve to a succeeded payment, and the response is the
  generic 500 of the outer handler, not a payment error.
\<close>

theorem gateway_failure_is_server_error:
  "\<not> captured (ex_env\<lparr>retrieve := (\<lambda>r. Inl ''timeout'')\<rparr>) ex_req \<and>
   fst (createBooking (ex_env\<lparr>retrieve := (\<lambda>r. Inl ''timeout'')\<rparr>) ex_db ex_req)
     = Response 500 (Message ''Server error'') \<and>
   \<not> payment_not_captured
       (fst (createBooking (ex_env\<lparr>retrieve := (\<lambda>r. Inl ''timeout'')\<rparr>) ex_db ex_req))"
  by (simp add: captured_def payment_not_captured_def createBooking_def validate_def example_defs)

lemma validate_uncaptured:
  assumes "\<not> captured e req"
  shows "validate e s req =
     Inl (case paymentIntentId req of
            None \<Rightarrow> Response 400 (Message ''Payment is required to confirm booking'')
          | Some pid \<Rightarrow>
              if pid = [] then Response 400 (Message ''Payment is required to confirm booking'')
              else (case retrieve e pid of
                      Inl err \<Rightarrow> Response 500 (Message ''Server error'')
                    | Inr p \<Rightarrow> Response 400
                               (Message (''Payment validation failed. Status: '' @ pi_status p))),
          s,
          case paymentIntentId req of
            None \<Rightarrow> []
          | Some pid \<Rightarrow> if pid = [] then [] else [GatewayRetrieve pid])"
  using assms by (auto simp: captured_def validate_def split: option.splits sum.splits)

text \<open>
  C4 (amended): a request whose payment reference does not resolve to a succeeded
  payment fails with the store unchanged, without a transaction and without a refund
  call; the response is 500 (server error) when the gateway call raises, and otherwise
  the 400 response of a payment that is missing or not captured.
\<close>

theorem uncaptured_payment_fails_fast:
  assumes "\<not> captured e req"
  shows "fst (snd (createBooking e s req)) = s \<and>
     TxBegin \<notin> set (snd (snd (createBooking e s req))) \<and>
     (\<forall>ref. GatewayRefund ref \<notin> set (snd (snd (createBooking e s req)))) \<and>
     fst (createBooking e s req) =
       (case paymentIntentId req of
          None \<Rightarrow> Response 400 (Message ''Payment is required to confirm booking'')
        | Some pid \<Rightarrow>
            if pid = [] then Response 400 (Message ''Payment is required to confirm booking'')
            else (case retrieve e pid of
                    Inl err \<Rightarrow> Response 500 (Message ''Server error'')
                  | Inr p \<Rightarrow> Response 400
                             (Message (''Payment validation failed. Status: '' @ pi_status p)))) \<and>
     (if gateway_raises e req
      then fst (createBooking e s req) = Response 500 (Message ''Server error'')
      else payment_not_captured (fst (createBooking e s req)))"
  by (auto simp: createBooking_def validate_uncaptured [OF assms] gateway_raises_def
      payment_not_captured_def split: option.splits sum.splits)

text \<open>An intent that is still processing.\<close>

theorem uncaptured_payment_fails_fast_witness:
  "createBooking (ex_env\<lparr>retrieve := (\<lambda>r. Inr \<lparr>pi_status = ''processing'', pi_amount = 5000\<rparr>)\<rparr>)
     ex_db ex_req =
     (Response 400 (Message ''Payment validation failed. Status: processing''), ex_db,
      [GatewayRetrieve ''pi_1'']) \<and>
   payment_not_captured
     (fst (createBooking (ex_env\<lparr>retrieve := (\<lambda>r. Inr \<lparr>pi_status = ''processing'', pi_amount = 5000\<rparr>)\<rparr>)
        ex_db ex_req))"
proof -
  let ?e = "ex_env\<lparr>retrieve := (\<lambda>r. Inr \<lparr>pi_status = ''processing'', pi_amount = 5000\<rparr>)\<rparr>"
  have n: "\<not> captured ?e ex_req"
    by (simp add: captured_def example_defs)
  have g: "\<not> gateway_raises ?e ex_req"
    by (simp add: gateway_raises_def example_defs)
  have "if gateway_raises ?e ex_req
        then fst (createBooking ?e ex_db ex_req) = Response 500 (Message ''Server error'')
        else payment_not_captured (fst (createBooking ?e ex_db ex_req))"
    using uncaptured_payment_fails_fast [OF n, of ex_db] by blast
  with g have "payment_not_captured (fst (createBooking ?e ex_db ex_req))"
    by (simp only: if_False)
  moreover have "createBooking ?e ex_db ex_req =
     (Response 400 (Message ''Payment validation failed. Status: processing''), ex_db,
      [GatewayRetrieve ''pi_1''])"
    by (simp add: createBooking_def validate_def example_defs)
  ultimately show ?thesis by blast
qed

section \<open>Status updates and stylist changes\<close>

lemma find_map_update:
  assumes "\<And>b. b_id (f b) = b_id b"
  shows "find (\<lambda>b. b_id b = i) (map (\<lambda>b. if b_id b = i then f b else b) xs)
     = map_option f (find (\<lambda>b. b_id b = i) xs)"
  by (induction xs) (simp_all add: assms)

lemma b_id_apply_data [simp]: "b_id (apply_data st sty b) = b_id b"
  by (simp add: apply_data_def)

lemma updateBooking_ok:
  assumes "find (\<lambda>b. b_id b = i) (bookings s) = Some bk"
    and "stylist_data s i bk (u_stylistId req) = Inr sty"
  shows "fst (updateBooking s i req) = Response 200 (BookingJson (apply_data (u_status req) sty bk))"
    and "find (\<lambda>b. b_id b = i) (bookings (snd (updateBooking s i req)))
           = Some (apply_data (u_status req) sty bk)"
proof -
  show "fst (updateBooking s i req) = Response 200 (BookingJson (apply_data (u_status req) sty bk))"
    using assms by (simp add: updateBooking_def Let_def)
  have "bookings (snd (updateBooking s i req)) =
      map (\<lambda>b. if b_id b = i then apply_data (u_status req) sty b else b) (bookings s)"
    using assms by (simp add: updateBooking_def Let_def split: option.splits)
  then show "find (\<lambda>b. b_id b = i) (bookings (snd (updateBooking s i req)))
           = Some (apply_data (u_status req) sty bk)"
    by (simp add: find_map_update assms(1))
qed

lemma stylist_data_taken:
  "stylist_data s i bk (Some (Stylist sid)) =
     (if stylist_taken s i sid (bookingDate bk) (bookingTime bk) then Inl () else Inr (Some (Some sid)))"
proof (cases "find (\<lambda>b. stylistId b = Some sid \<and> bookingDate b = bookingDate bk \<and>
                          bookingTime b = bookingTime bk \<and> status b \<noteq> Cancelled \<and>
                          b_id b \<noteq> i) (bookings s)")
  case None
  then have "\<not> stylist_taken s i sid (bookingDate bk) (bookingTime bk)"
    unfolding find_None_iff stylist_taken_def by blast
  with None show ?thesis by (simp add: stylist_data_def)
next
  case (Some a)
  then have "find (\<lambda>b. stylistId b = Some sid \<and> bookingDate b = bookingDate bk \<and>
                          bookingTime b = bookingTime bk \<and> status b \<noteq> Cancelled \<and>
                          b_id b \<noteq> i) (bookings s) \<noteq> None" by simp
  then have "stylist_taken s i sid (bookingDate bk) (bookingTime bk)"
    unfolding find_None_iff stylist_taken_def by blast
  with Some show ?thesis by (simp add: stylist_data_def)
qed

text \<open>
  C7, as stated, fails: \<open>updateBooking\<close> compares the requested status with nothing.
  A completed booking goes back to booked.
\<close>

theorem completed_is_not_terminal:
  "updateBooking (ex_db\<lparr>bookings := [ex_booking\<lparr>status := Completed\<rparr>]\<rparr>) 1
     \<lparr>u_status = Some Booked, u_stylistId = None, u_paymentStatus = None\<rparr>
   = (Response 200 (BookingJson ex_booking), ex_db\<lparr>bookings := [ex_booking]\<rparr>)"
  by (simp add: updateBooking_def stylist_data_def apply_data_def Let_def example_defs)

text \<open>
  C7 (amended): a status update is not checked against the state machine. For an
  existing booking and a request without a stylist change, \<open>updateBooking\<close> answers
  200 and the booking has the requested status afterwards, whatever its status was
  (completed included); its status stays as it was when the request names none.
\<close>

theorem status_update_sets_any_status:
  assumes "find (\<lambda>b. b_id b = i) (bookings s) = Some bk"
    and "u_stylistId req = None"
  shows "fst (updateBooking s i req) =
           Response 200 (BookingJson (bk\<lparr>status := (case u_status req of None \<Rightarrow> status bk
                                                       | Some st \<Rightarrow> st)\<rparr>)) \<and>
         find (\<lambda>b. b_id b = i) (bookings (snd (updateBooking s i req))) =
           Some (bk\<lparr>status := (case u_status req of None \<Rightarrow> status bk | Some st \<Rightarrow> st)\<rparr>)"
proof -
  have "stylist_data s i bk (u_stylistId req) = Inr None"
    by (simp add: stylist_data_def assms(2))
  from updateBooking_ok [OF assms(1) this] show ?thesis
    by (simp add: apply_data_def)
qed

text \<open>A completed booking set to in progress.\<close>

theorem status_update_sets_any_status_witness:
  "map_option status
     (find (\<lambda>b. b_id b = 1)
        (bookings (snd (updateBooking (ex_db\<lparr>bookings := [ex_booking\<lparr>status := Completed\<rparr>]\<rparr>) 1
           \<lparr>u_status = Some InProgress, u_stylistId = None, u_paymentStatus = None\<rparr>))))
   = Some InProgress"
proof -
  let ?s = "ex_db\<lparr>bookings := [ex_booking\<lparr>status := Completed\<rparr>]\<rparr>"
  let ?r = "\<lparr>u_status = Some InProgress, u_stylistId = None, u_paymentStatus = None\<rparr>"
  have f: "find (\<lambda>b. b_id b = 1) (bookings ?s) = Some (ex_booking\<lparr>status := Completed\<rparr>)"
    by (simp add: example_defs)
  have n: "u_stylistId ?r = None"
    by simp
  from status_update_sets_any_status [OF f n] show ?thesis
    by simp
qed

text \<open>
  C8, as stated, fails in its second part: the stylist of a completed and of a cancelled
  booking is changed like any other.
\<close>

theorem stylist_of_closed_booking_changes:
  "updateBooking (ex_db\<lparr>bookings := [ex_booking\<lparr>status := Completed\<rparr>]\<rparr>) 1
     \<lparr>u_status = None, u_stylistId = Some (Stylist 9), u_paymentStatus = None\<rparr>
   = (Response 200 (BookingJson (ex_booking\<lparr>status := Completed, stylistId := Some 9\<rparr>)),
      ex_db\<lparr>bookings := [ex_booking\<lparr>status := Completed, stylistId := Some 9\<rparr>]\<rparr>) \<and>
   updateBooking (ex_db\<lparr>bookings := [ex_booking\<lparr>status := Cancelled\<rparr>]\<rparr>) 1
     \<lparr>u_status = None, u_stylistId = Some (Stylist 9), u_paymentStatus = None\<rparr>
   = (Response 200 (BookingJson (ex_booking\<lparr>status := Cancelled, stylistId := Some 9\<rparr>)),
      ex_db\<lparr>bookings := [ex_booking\<lparr>status := Cancelled, stylistId := Some 9\<rparr>]\<rparr>)"
  by (simp add: updateBooking_def stylist_data_def apply_data_def Let_def example_defs)

text \<open>
  C8 (amended): for an existing booking of any status, a request that names a stylist
  re-runs the exclusivity check against the new (stylist, date, time) key, leaving out
  the booking itself: if another booking that is not cancelled holds the key, the
  response is 409 and the store is unchanged; otherwise the response is 200 and the
  booking carries the new stylist.
\<close>

theorem stylist_change_rechecks_slot:
  assumes "find (\<lambda>b. b_id b = i) (bookings s) = Some bk"
    and "u_stylistId req = Some (Stylist sid)"
  shows "(stylist_taken s i sid (bookingDate bk) (bookingTime bk) \<longrightarrow>
            updateBooking s i req =
              (Response 409 (Message ''Stylist is already booked at this time''), s)) \<and>
         (\<not> stylist_taken s i sid (bookingDate bk) (bookingTime bk) \<longrightarrow>
            fst (updateBooking s i req) =
              Response 200 (BookingJson (apply_data (u_status req) (Some (Some sid)) bk)) \<and>
            find (\<lambda>b. b_id b = i) (bookings (snd (updateBooking s i req))) =
              Some (apply_data (u_status req) (Some (Some sid)) bk) \<and>
            stylistId (apply_data (u_status req) (Some (Some sid)) bk) = Some sid)"
proof (intro conjI impI)
  assume "stylist_taken s i sid (bookingDate bk) (bookingTime bk)"
  then show "updateBooking s i req =
              (Response 409 (Message ''Stylist is already booked at this time''), s)"
    by (simp add: updateBooking_def assms stylist_data_taken)
next
  assume "\<not> stylist_taken s i sid (bookingDate bk) (bookingTime bk)"
  then have d: "stylist_data s i bk (u_stylistId req) = Inr (Some (Some sid))"
    by (simp add: assms(2) stylist_data_taken)
  from updateBooking_ok [OF assms(1) d]
  show "fst (updateBooking s i req) =
              Response 200 (BookingJson (apply_data (u_status req) (Some (Some sid)) bk))"
    and "find (\<lambda>b. b_id b = i) (bookings (snd (updateBooking s i req))) =
              Some (apply_data (u_status req) (Some (Some sid)) bk)"
    by simp_all
  show "stylistId (apply_data (u_status req) (Some (Some sid)) bk) = Some sid"
    by (simp add: apply_data_def)
qed

text \<open>Stylist 9 is taken at the time of booking 1, stylist 8 is free.\<close>

theorem stylist_change_rechecks_slot_witness:
  "updateBooking ex_db_two 1 \<lparr>u_status = None, u_stylistId = Some (Stylist 9), u_paymentStatus = None\<rparr>
     = (Response 409 (Message ''Stylist is already booked at this time''), ex_db_two) \<and>
   fst (updateBooking ex_db_two 1 \<lparr>u_status = None, u_stylistId = Some (Stylist 8), u_paymentStatus = None\<rparr>)
     = Response 200 (BookingJson (ex_booking\<lparr>stylistId := Some 8\<rparr>))"
proof -
  have f: "find (\<lambda>b. b_id b = 1) (bookings ex_db_two) = Some ex_booking"
    by (simp add: ex_db_two_def example_defs)
  have t9: "stylist_taken ex_db_two 1 9 (bookingDate ex_booking) (bookingTime ex_booking)"
    by (simp add: stylist_taken_def ex_db_two_def example_defs)
  have t8: "\<not> stylist_taken ex_db_two 1 8 (bookingDate ex_booking) (bookingTime ex_booking)"
    by (simp add: stylist_taken_def ex_db_two_def example_defs)
  have a: "updateBooking ex_db_two 1 \<lparr>u_status = None, u_stylistId = Some (Stylist 9), u_paymentStatus = None\<rparr>
     = (Response 409 (Message ''Stylist is already booked at this time''), ex_db_two)"
    using stylist_change_rechecks_slot [OF f, of "\<lparr>u_status = None, u_stylistId = Some (Stylist 9), u_paymentStatus = None\<rparr>" 9] t9
    by simp
  have b: "fst (updateBooking ex_db_two 1 \<lparr>u_status = None, u_stylistId = Some (Stylist 8), u_paymentStatus = None\<rparr>)
     = Response 200 (BookingJson (apply_data None (Some (Some 8)) ex_booking))"
    using stylist_change_rechecks_slot [OF f, of "\<lparr>u_status = None, u_stylistId = Some (Stylist 8), u_paymentStatus = None\<rparr>" 8] t8
    by simp
  from a b show ?thesis
    by (simp add: apply_data_def)
qed

section \<open>The check-in window\<close>






section \<open>Reminders\<close>







lemma step_rows [simp]:
  "users (reminder_step fails zone now b s) = users s"
  by (simp add: reminder_step_def)

lemma fold_step_users [simp]: "users (fold (reminder_step fails zone now) xs s) = users s"
  by (induction xs arbitrary: s) simp_all



















end
